theory Spec2Isabelle
  imports Main
begin

section \<open>The process state the script runs in\<close>

text \<open>
  The script \<^verbatim>\<open>scripts/ci/configure-aws-cli.py\<close> reads the process environment, looks
  at the filesystem, prints to standard output and writes two files. All of that is
  made explicit: a \<open>world\<close> holds the environment variables, the home directory the
  password database records for the user, the filesystem and what has been printed.

  Strings are byte strings (\<open>char list\<close>); newlines are written as they are
  (POSIX text files). A filesystem is a finite tree given as a map from resolved paths
  (lists of components, \<open>[]\<close> the root) to nodes. Symbolic links, permissions, relative
  working directories and the path components \<open>.\<close> and \<open>..\<close> are not modelled: a
  path string is resolved by splitting it at its separators.
\<close>

datatype node = File string | Dir

type_synonym path = "string list"

type_synonym filesystem = "path \<rightharpoonup> node"

record world =
  environ :: "string \<rightharpoonup> string"
  pw_dir :: "string option"
  files :: filesystem
  stdout :: string

text \<open>
  Every node other than the root lives in a directory. The states a process can start
  in satisfy this; the operations below preserve it.
\<close>

definition wf_fs :: "filesystem \<Rightarrow> bool" where
  "wf_fs fs = (fs [] = Some Dir \<and> (\<forall>p. p \<noteq> [] \<and> fs p \<noteq> None \<longrightarrow> fs (butlast p) = Some Dir))"

text \<open>
  Python exceptions the script can meet. \<open>SystemExit n\<close> is what \<^verbatim>\<open>exit(n)\<close> raises;
  \<open>Unmodelled\<close> stands for a use of \<^verbatim>\<open>str.format\<close> outside the fragment modelled below.
\<close>

datatype exc =
    SystemExit int
  | TypeError
  | ValueError
  | IndexError
  | FileExistsError
  | FileNotFoundError
  | NotADirectoryError
  | IsADirectoryError
  | Unmodelled

text \<open>A statement sequence: a state transformer that returns a value or raises.\<close>

type_synonym 'a py = "world \<Rightarrow> (exc + 'a) \<times> world"

definition return :: "'a \<Rightarrow> 'a py" where
  "return x = (\<lambda>w. (Inr x, w))"

definition raise :: "exc \<Rightarrow> 'a py" where
  "raise e = (\<lambda>w. (Inl e, w))"

definition seq :: "'a py \<Rightarrow> ('a \<Rightarrow> 'b py) \<Rightarrow> 'b py" where
  "seq m f = (\<lambda>w. case m w of (Inl e, w') \<Rightarrow> (Inl e, w') | (Inr x, w') \<Rightarrow> f x w')"

definition lift :: "exc + 'a \<Rightarrow> 'a py" where
  "lift r = (\<lambda>w. (r, w))"

section \<open>The library functions the script calls\<close>

subsection \<open>\<^verbatim>\<open>print\<close> and \<^verbatim>\<open>exit\<close>\<close>

definition print :: "string \<Rightarrow> unit py" where
  "print s = (\<lambda>w. (Inr (), w\<lparr>stdout := stdout w @ s @ ''\<newline>''\<rparr>))"

definition exit :: "int \<Rightarrow> 'a py" where
  "exit n = raise (SystemExit n)"

subsection \<open>\<^verbatim>\<open>str.format\<close>\<close>

text \<open>
  The fragment of \<^verbatim>\<open>str.format\<close> with automatically numbered fields \<^verbatim>\<open>{}\<close> and the
  escapes \<^verbatim>\<open>{{\<close> and \<^verbatim>\<open>}}\<close>. An argument is copied as it is and never scanned again;
  arguments left over are ignored; a field with no argument left raises IndexError and
  a single brace raises ValueError, as in Python.
\<close>

fun str_format :: "string \<Rightarrow> string list \<Rightarrow> exc + string" where
  "str_format [] args = Inr []"
| "str_format [c] args = (if c = CHR ''{'' \<or> c = CHR ''}'' then Inl ValueError else Inr [c])"
| "str_format (c # d # t) args =
     (if c = CHR ''{'' then
        (if d = CHR ''{'' then map_sum id ((#) c) (str_format t args)
         else if d = CHR ''}'' then
           (case args of
              [] \<Rightarrow> Inl IndexError
            | a # rest \<Rightarrow> map_sum id ((@) a) (str_format t rest))
         else Inl Unmodelled)
      else if c = CHR ''}'' then
        (if d = CHR ''}'' then map_sum id ((#) c) (str_format t args) else Inl ValueError)
      else map_sum id ((#) c) (str_format (d # t) args))"

subsection \<open>\<^verbatim>\<open>textwrap.dedent\<close>\<close>

text \<open>
  \<^verbatim>\<open>textwrap.dedent\<close>: lines of blanks and tabs only become empty, the margin is the
  longest run of leading blanks and tabs common to the remaining non-empty lines, and
  the margin is removed from the start of every line that starts with it.
\<close>

definition is_blank :: "char \<Rightarrow> bool" where
  "is_blank c = (c = CHR '' '' \<or> c = CHR 0x09)"

fun split_lines :: "string \<Rightarrow> string list" where
  "split_lines [] = [[]]"
| "split_lines (c # cs) =
     (if c = CHR ''\<newline>'' then [] # split_lines cs
      else (case split_lines cs of [] \<Rightarrow> [[c]] | l # ls \<Rightarrow> (c # l) # ls))"

fun join_lines :: "string list \<Rightarrow> string" where
  "join_lines [] = []"
| "join_lines [l] = l"
| "join_lines (l # m # ls) = l @ CHR ''\<newline>'' # join_lines (m # ls)"

definition blank_line_emptied :: "string \<Rightarrow> string" where
  "blank_line_emptied l = (if list_all is_blank l then [] else l)"

fun common_prefix :: "string \<Rightarrow> string \<Rightarrow> string" where
  "common_prefix (x # xs) (y # ys) = (if x = y then x # common_prefix xs ys else [])"
| "common_prefix _ _ = []"

definition margin_of :: "string list \<Rightarrow> string" where
  "margin_of ls =
     (case map (takeWhile is_blank) (filter (\<lambda>l. l \<noteq> []) ls) of
        [] \<Rightarrow> []
      | i # rest \<Rightarrow> fold (\<lambda>indent margin. common_prefix margin indent) rest i)"

definition remove_margin :: "string \<Rightarrow> string \<Rightarrow> string" where
  "remove_margin margin l =
     (if take (length margin) l = margin then drop (length margin) l else l)"

definition dedent :: "string \<Rightarrow> string" where
  "dedent text =
     (let ls = map blank_line_emptied (split_lines text);
          margin = margin_of ls
      in join_lines (map (remove_margin margin) ls))"

subsection \<open>\<^verbatim>\<open>os.path\<close> (POSIX)\<close>

definition os_path_join :: "string \<Rightarrow> string \<Rightarrow> string" where
  "os_path_join a b =
     (if b \<noteq> [] \<and> hd b = CHR ''/'' then b
      else if a = [] \<or> last a = CHR ''/'' then a @ b
      else a @ ''/'' @ b)"

definition rstrip_sep :: "string \<Rightarrow> string" where
  "rstrip_sep s = rev (dropWhile (\<lambda>c. c = CHR ''/'') (rev s))"

text \<open>
  \<^verbatim>\<open>os.path.expanduser("~")\<close>: the value of \<^verbatim>\<open>HOME\<close> when that variable is set,
  otherwise the home directory of the password database, in both cases without
  trailing separators and \<^verbatim>\<open>/\<close> when nothing is left; the path itself when neither is
  known.
\<close>

definition expanduser_tilde :: "world \<Rightarrow> string" where
  "expanduser_tilde w =
     (case environ w ''HOME'' of
        Some h \<Rightarrow> (if rstrip_sep h = [] then ''/'' else rstrip_sep h)
      | None \<Rightarrow>
          (case pw_dir w of
             Some h \<Rightarrow> (if rstrip_sep h = [] then ''/'' else rstrip_sep h)
           | None \<Rightarrow> ''~''))"

text \<open>
  The components of a path string: the non-empty pieces between separators.
  \<open>components cur s\<close> carries the component being read.
\<close>

fun components :: "string \<Rightarrow> string \<Rightarrow> path" where
  "components cur [] = (if cur = [] then [] else [cur])"
| "components cur (c # cs) =
     (if c = CHR ''/'' then (if cur = [] then [] else [cur]) @ components [] cs
      else components (cur @ [c]) cs)"

definition resolve :: "string \<Rightarrow> path" where
  "resolve s = components [] s"

definition os_path_exists :: "string \<Rightarrow> world \<Rightarrow> bool" where
  "os_path_exists p w = (files w (resolve p) \<noteq> None)"

subsection \<open>\<^verbatim>\<open>os.makedirs\<close>\<close>

text \<open>
  \<^verbatim>\<open>os.mkdir\<close> of one directory, and \<^verbatim>\<open>os.makedirs\<close>, which first creates the missing
  ancestors. \<open>makedirs_path\<close> follows the library's recursion on the parent.
\<close>

definition mkdir_path :: "path \<Rightarrow> filesystem \<Rightarrow> exc + filesystem" where
  "mkdir_path p fs =
     (if fs p \<noteq> None then Inl FileExistsError
      else (case fs (butlast p) of
              None \<Rightarrow> Inl FileNotFoundError
            | Some (File _) \<Rightarrow> Inl NotADirectoryError
            | Some Dir \<Rightarrow> Inr (fs(p \<mapsto> Dir))))"

function makedirs_path :: "path \<Rightarrow> bool \<Rightarrow> filesystem \<Rightarrow> exc + filesystem" where
  "makedirs_path p exist_ok fs =
     (let made =
            (if p \<noteq> [] \<and> fs (butlast p) = None
             then (case makedirs_path (butlast p) exist_ok fs of
                     Inl FileExistsError \<Rightarrow> Inr fs
                   | Inl e \<Rightarrow> Inl e
                   | Inr fs' \<Rightarrow> Inr fs')
             else Inr fs)
      in case made of
           Inl e \<Rightarrow> Inl e
         | Inr fs' \<Rightarrow>
             (case mkdir_path p fs' of
                Inr fs'' \<Rightarrow> Inr fs''
              | Inl e \<Rightarrow> if exist_ok \<and> fs' p = Some Dir then Inr fs' else Inl e))"
  by pat_completeness auto
termination
  by (relation "measure (\<lambda>(p, _, _). length p)") auto

declare makedirs_path.simps [simp del]

text \<open>
  A Python value passed by keyword. The signature is
  \<^verbatim>\<open>makedirs(name, mode=0o777, exist_ok=False)\<close>: a call that passes any other keyword
  raises TypeError when the arguments are bound, before the body runs.
\<close>

datatype pyval = PyBool bool | PyInt int

definition kwarg_bool :: "(string \<times> pyval) list \<Rightarrow> string \<Rightarrow> bool \<Rightarrow> bool" where
  "kwarg_bool kwargs name dflt =
     (case map_of kwargs name of
        Some (PyBool b) \<Rightarrow> b
      | Some (PyInt n) \<Rightarrow> n \<noteq> 0
      | None \<Rightarrow> dflt)"

definition os_makedirs :: "string \<Rightarrow> (string \<times> pyval) list \<Rightarrow> unit py" where
  "os_makedirs name kwargs =
     (\<lambda>w. if list_all (\<lambda>(k, _). k = ''mode'' \<or> k = ''exist_ok'') kwargs
          then (case makedirs_path (resolve name) (kwarg_bool kwargs ''exist_ok'' False) (files w) of
                  Inl e \<Rightarrow> (Inl e, w)
                | Inr fs' \<Rightarrow> (Inr (), w\<lparr>files := fs'\<rparr>))
          else (Inl TypeError, w))"

subsection \<open>\<^verbatim>\<open>open(path, "w")\<close> and \<^verbatim>\<open>write\<close>\<close>

text \<open>
  Opening for writing creates the file or truncates it and returns a handle (here the
  resolved path); it fails when the directory of the file is missing or is no
  directory, and when the path is a directory. Writing appends to the open file.
\<close>

definition open_w :: "string \<Rightarrow> path py" where
  "open_w name =
     (\<lambda>w. let p = resolve name in
          case files w (butlast p) of
            None \<Rightarrow> (Inl FileNotFoundError, w)
          | Some (File _) \<Rightarrow> (Inl NotADirectoryError, w)
          | Some Dir \<Rightarrow>
              (case files w p of
                 Some Dir \<Rightarrow> (Inl IsADirectoryError, w)
               | _ \<Rightarrow> (Inr p, w\<lparr>files := (files w)(p \<mapsto> File [])\<rparr>)))"

definition handle_write :: "path \<Rightarrow> string \<Rightarrow> unit py" where
  "handle_write h s =
     (\<lambda>w. case files w h of
            Some (File old) \<Rightarrow> (Inr (), w\<lparr>files := (files w)(h \<mapsto> File (old @ s))\<rparr>)
          | _ \<Rightarrow> (Inl ValueError, w))"

section \<open>The script\<close>

text \<open>
  The functions of the script, statement by statement. In \<open>from_env\<close> the test
  \<^verbatim>\<open>not ret\<close> holds for \<^verbatim>\<open>None\<close> (the variable is unset) and for the empty string.
  The two literals are the triple-quoted strings as the source has them, indentation
  and the blanks before the closing quotes included.
\<close>

definition from_env :: "string \<Rightarrow> string py" where
  "from_env key =
     (\<lambda>w. case environ w key of
            None \<Rightarrow>
              seq (lift (str_format ''Missing required environment variable: {}'' [key]))
                (\<lambda>msg. seq (print msg) (\<lambda>_. exit 2)) w
          | Some ret \<Rightarrow>
              if ret = []
              then seq (lift (str_format ''Missing required environment variable: {}'' [key]))
                     (\<lambda>msg. seq (print msg) (\<lambda>_. exit 2)) w
              else return ret w)"

definition check_no_file_named :: "string \<Rightarrow> unit py" where
  "check_no_file_named path =
     (\<lambda>w. if os_path_exists path w
          then seq (lift (str_format ''AWS config file '{}' exists. Refusing to overwrite.'' [path]))
                 (\<lambda>msg. seq (print msg) (\<lambda>_. exit 2)) w
          else return () w)"

definition config_literal :: string where
  "config_literal =
     ''    [default]\<newline>    endpoint_url = {}\<newline>    region = auto\<newline>    output = json\<newline>    ''"

definition creds_literal :: string where
  "creds_literal =
     ''    [default]\<newline>    aws_access_key_id = {}\<newline>    aws_secret_access_key = {}\<newline>    ''"

definition write_config :: "string \<Rightarrow> unit py" where
  "write_config path =
     seq (check_no_file_named path) (\<lambda>_.
     seq (from_env ''R2_S3_ENDPOINT'') (\<lambda>endpoint.
     let contents = dedent config_literal in
     seq (open_w path) (\<lambda>handle.
     seq (lift (str_format contents [endpoint])) (\<lambda>text.
     handle_write handle text))))"

definition write_creds :: "string \<Rightarrow> unit py" where
  "write_creds path =
     seq (from_env ''R2_ACCESS_KEY_ID'') (\<lambda>key_id.
     seq (from_env ''R2_SECRET_ACCESS_KEY'') (\<lambda>key.
     let contents = dedent creds_literal in
     seq (open_w path) (\<lambda>handle.
     seq (lift (str_format contents [key_id, key])) (\<lambda>text.
     handle_write handle text))))"

definition main :: "unit py" where
  "main =
     (\<lambda>w. let home_dir = expanduser_tilde w;
              aws_dir = os_path_join home_dir ''.aws''
          in seq (if \<not> os_path_exists aws_dir w
                  then os_makedirs aws_dir [(''exists_ok'', PyBool True)]
                  else return ())
               (\<lambda>_. let config_file = os_path_join aws_dir ''config'';
                        creds_file = os_path_join aws_dir ''credentials''
                    in seq (write_config config_file) (\<lambda>_. write_creds creds_file)) w)"

text \<open>
  The exit status of the process: 0 when \<open>main\<close> returns, the argument of
  \<^verbatim>\<open>exit\<close> when SystemExit reaches the top, 1 for any other uncaught exception (whose
  traceback goes to standard error, not to standard output).
\<close>

definition exit_status :: "exc + unit \<Rightarrow> int" where
  "exit_status r = (case r of Inr _ \<Rightarrow> 0 | Inl (SystemExit n) \<Rightarrow> n | Inl _ \<Rightarrow> 1)"

definition run_script :: "world \<Rightarrow> int \<times> world" where
  "run_script w = (case main w of (r, w') \<Rightarrow> (exit_status r, w'))"

section \<open>Notions used to state the properties\<close>

text \<open>The three paths as \<open>main\<close> computes them, and the two target files' texts.\<close>

definition aws_dir :: "world \<Rightarrow> string" where
  "aws_dir w = os_path_join (expanduser_tilde w) ''.aws''"

definition config_file :: "world \<Rightarrow> string" where
  "config_file w = os_path_join (aws_dir w) ''config''"

definition creds_file :: "world \<Rightarrow> string" where
  "creds_file w = os_path_join (aws_dir w) ''credentials''"

text \<open>A variable is missing when it is unset or set to the empty string.\<close>

definition missing :: "world \<Rightarrow> string \<Rightarrow> bool" where
  "missing w key = (environ w key = None \<or> environ w key = Some [])"

definition env_value :: "world \<Rightarrow> string \<Rightarrow> string" where
  "env_value w key = (case environ w key of None \<Rightarrow> [] | Some v \<Rightarrow> v)"



definition missing_msg :: "string \<Rightarrow> string" where
  "missing_msg key = ''Missing required environment variable: '' @ key @ ''\<newline>''"

definition exists_msg :: "string \<Rightarrow> string" where
  "exists_msg p =
     ''AWS config file '' @ CHR 0x27 # p @ CHR 0x27 # '' exists. Refusing to overwrite.\<newline>''"

definition config_text :: "string \<Rightarrow> string" where
  "config_text e =
     ''[default]\<newline>endpoint_url = '' @ e @ ''\<newline>region = auto\<newline>output = json\<newline>''"

definition creds_text :: "string \<Rightarrow> string \<Rightarrow> string" where
  "creds_text k s =
     ''[default]\<newline>aws_access_key_id = '' @ k @ ''\<newline>aws_secret_access_key = '' @ s @ ''\<newline>''"

definition exit_2_printing :: "string \<Rightarrow> world \<Rightarrow> (exc + 'a) \<times> world" where
  "exit_2_printing msg w = (Inl (SystemExit 2), w\<lparr>stdout := stdout w @ msg\<rparr>)"

definition config_written :: "world \<Rightarrow> world" where
  "config_written w =
     w\<lparr>files := (files w)(resolve (config_file w) \<mapsto>
                   File (config_text (env_value w ''R2_S3_ENDPOINT'')))\<rparr>"

definition creds_written :: "world \<Rightarrow> world" where
  "creds_written w =
     w\<lparr>files := (files w)(resolve (config_file w) \<mapsto>
                   File (config_text (env_value w ''R2_S3_ENDPOINT'')),
                 resolve (creds_file w) \<mapsto>
                   File (creds_text (env_value w ''R2_ACCESS_KEY_ID'')
                           (env_value w ''R2_SECRET_ACCESS_KEY'')))\<rparr>"

section \<open>Example states\<close>

text \<open>
  A CI runner with the three variables set as in the specification's example. Its home
  directory exists; \<open>fresh_runner\<close> has no \<^verbatim>\<open>.aws\<close> directory yet, the other states
  have one.
\<close>

definition runner_env :: "string \<rightharpoonup> string" where
  "runner_env =
     [''HOME'' \<mapsto> ''/home/runner'',
      ''R2_S3_ENDPOINT'' \<mapsto> ''https://x.r2.cloudflarestorage.com'',
      ''R2_ACCESS_KEY_ID'' \<mapsto> ''AKIA...'',
      ''R2_SECRET_ACCESS_KEY'' \<mapsto> ''secret'']"

definition runner_home_fs :: filesystem where
  "runner_home_fs = [[] \<mapsto> Dir, [''home''] \<mapsto> Dir, [''home'', ''runner''] \<mapsto> Dir]"

definition runner_aws_fs :: filesystem where
  "runner_aws_fs = runner_home_fs([''home'', ''runner'', ''.aws''] \<mapsto> Dir)"

definition fresh_runner :: world where
  "fresh_runner =
     \<lparr>environ = runner_env, pw_dir = Some ''/home/runner'', files = runner_home_fs, stdout = []\<rparr>"

definition ready_runner :: world where
  "ready_runner =
     \<lparr>environ = runner_env, pw_dir = Some ''/home/runner'', files = runner_aws_fs, stdout = []\<rparr>"

text \<open>An operator's credentials file is already there.\<close>

definition operator_creds_runner :: world where
  "operator_creds_runner =
     \<lparr>environ = runner_env, pw_dir = Some ''/home/runner'',
      files = runner_aws_fs([''home'', ''runner'', ''.aws'', ''credentials''] \<mapsto>
                File ''[default]\<newline>aws_access_key_id = operator\<newline>''),
      stdout = []\<rparr>"

text \<open>The access key id is not set.\<close>

definition key_id_unset_runner :: world where
  "key_id_unset_runner =
     \<lparr>environ = runner_env(''R2_ACCESS_KEY_ID'' := None), pw_dir = Some ''/home/runner'',
      files = runner_aws_fs, stdout = []\<rparr>"

text \<open>An operator's config file is already there, and the endpoint is not set.\<close>

definition operator_config_runner :: world where
  "operator_config_runner =
     \<lparr>environ = runner_env(''R2_S3_ENDPOINT'' := None), pw_dir = Some ''/home/runner'',
      files = runner_aws_fs([''home'', ''runner'', ''.aws'', ''config''] \<mapsto>
                File ''[default]\<newline>region = us-east-1\<newline>''),
      stdout = []\<rparr>"

text \<open>The endpoint value carries two more lines, one of them a section header.\<close>

definition crafted_runner :: world where
  "crafted_runner =
     \<lparr>environ = runner_env(''R2_S3_ENDPOINT'' \<mapsto>
                  ''https://x.r2.cloudflarestorage.com\<newline>[profile other]\<newline>region = mars''),
      pw_dir = Some ''/home/runner'', files = runner_aws_fs, stdout = []\<rparr>"

text \<open>
  The same home, variables and target paths as \<open>ready_runner\<close>, but another spelling of
  \<^verbatim>\<open>HOME\<close>, one more variable, one more directory and earlier output.
\<close>

definition busy_runner :: world where
  "busy_runner =
     \<lparr>environ = runner_env(''HOME'' \<mapsto> ''/home/runner/'', ''CI'' \<mapsto> ''true''), pw_dir = None,
      files = runner_aws_fs([''tmp''] \<mapsto> Dir), stdout = ''Run configure-aws-cli\<newline>''\<rparr>"

section \<open>What the library calls of the script compute\<close>

lemma dedent_config_literal:
  "dedent config_literal =
     ''[default]\<newline>endpoint_url = {}\<newline>region = auto\<newline>output = json\<newline>''"
  by (simp add: dedent_def config_literal_def blank_line_emptied_def is_blank_def margin_of_def
      remove_margin_def)

lemma dedent_creds_literal:
  "dedent creds_literal =
     ''[default]\<newline>aws_access_key_id = {}\<newline>aws_secret_access_key = {}\<newline>''"
  by (simp add: dedent_def creds_literal_def blank_line_emptied_def is_blank_def margin_of_def
      remove_margin_def)

lemma format_config: "str_format (dedent config_literal) [e] = Inr (config_text e)"
  unfolding dedent_config_literal config_text_def by simp

lemma format_creds: "str_format (dedent creds_literal) [k, s] = Inr (creds_text k s)"
  unfolding dedent_creds_literal creds_text_def by simp

lemma components_sep:
  "components cur (a @ CHR ''/'' # b) = components cur a @ components [] b"
  by (induction a arbitrary: cur) simp_all

lemma components_plain:
  "CHR ''/'' \<notin> set b \<Longrightarrow> components cur b = (if cur @ b = [] then [] else [cur @ b])"
  by (induction b arbitrary: cur) auto

text \<open>Joining a plain name to a path appends one component.\<close>

lemma resolve_join:
  assumes "b \<noteq> []" and "CHR ''/'' \<notin> set b"
  shows "resolve (os_path_join a b) = resolve a @ [b]"
proof -
  have hd_b: "hd b \<noteq> CHR ''/''"
    using assms by (cases b) auto
  have plain: "components [] b = [b]"
    using assms by (simp add: components_plain)
  show ?thesis
  proof (cases "a = [] \<or> last a = CHR ''/''")
    case False
    then show ?thesis
      using hd_b plain by (simp add: os_path_join_def resolve_def components_sep)
  next
    case True
    show ?thesis
    proof (cases "a = []")
      case True
      then show ?thesis
        using hd_b plain by (simp add: os_path_join_def resolve_def)
    next
      case False
      with True have "a = butlast a @ [CHR ''/'']"
        by (metis append_butlast_last_id)
      then obtain a' where a: "a = a' @ [CHR ''/'']" ..
      have "components [] (a @ b) = components [] a' @ [b]"
        using plain by (simp add: a components_sep)
      moreover have "components [] a = components [] a'"
        using components_sep [of "[]" a' "[]"] by (simp add: a)
      ultimately show ?thesis
        using hd_b True by (simp add: os_path_join_def resolve_def)
    qed
  qed
qed

lemma resolve_aws_dir: "resolve (aws_dir w) = resolve (expanduser_tilde w) @ [''.aws'']"
  by (simp add: aws_dir_def resolve_join)

lemma resolve_config_file: "resolve (config_file w) = resolve (aws_dir w) @ [''config'']"
  by (simp add: config_file_def resolve_join)

lemma resolve_creds_file: "resolve (creds_file w) = resolve (aws_dir w) @ [''credentials'']"
  by (simp add: creds_file_def resolve_join)

lemma config_path_neq_creds_path: "resolve (config_file w) \<noteq> resolve (creds_file w)"
  by (simp add: resolve_config_file resolve_creds_file)







text \<open>
  The keyword the script passes is not one of \<^verbatim>\<open>os.makedirs\<close>; with the keyword of the
  signature the same call creates the directory, or leaves an existing one alone.
\<close>

lemma os_makedirs_exists_ok: "os_makedirs name [(''exists_ok'', v)] w = (Inl TypeError, w)"
  by (simp add: os_makedirs_def)

section \<open>What the script's functions compute\<close>

lemma env_value_empty: "env_value w key = [] \<longleftrightarrow> missing w key"
  by (simp add: env_value_def missing_def split: option.splits)

lemma env_value_Some: "environ w key = Some v \<Longrightarrow> env_value w key = v"
  by (simp add: env_value_def)

lemma from_env_value:
  "from_env key w =
     (if env_value w key = [] then exit_2_printing (missing_msg key) w
      else (Inr (env_value w key), w))"
  by (simp add: from_env_def seq_def lift_def print_def exit_def raise_def return_def
      exit_2_printing_def missing_msg_def env_value_def split: option.splits)

lemma check_no_file_named_eq:
  "check_no_file_named path w =
     (if files w (resolve path) \<noteq> None then exit_2_printing (exists_msg path) w
      else (Inr (), w))"
  by (simp add: check_no_file_named_def os_path_exists_def seq_def lift_def print_def exit_def
      raise_def return_def exit_2_printing_def exists_msg_def)

lemma open_then_write:
  "seq (open_w path) (\<lambda>h. handle_write h text) w =
     (case files w (butlast (resolve path)) of
        None \<Rightarrow> (Inl FileNotFoundError, w)
      | Some (File _) \<Rightarrow> (Inl NotADirectoryError, w)
      | Some Dir \<Rightarrow>
          (if files w (resolve path) = Some Dir then (Inl IsADirectoryError, w)
           else (Inr (), w\<lparr>files := (files w)(resolve path \<mapsto> File text)\<rparr>)))"
  by (simp add: seq_def open_w_def handle_write_def Let_def split: option.splits node.splits)

lemma write_config_eq:
  "write_config path w =
     (if files w (resolve path) \<noteq> None then exit_2_printing (exists_msg path) w
      else if env_value w ''R2_S3_ENDPOINT'' = []
        then exit_2_printing (missing_msg ''R2_S3_ENDPOINT'') w
      else (case files w (butlast (resolve path)) of
              None \<Rightarrow> (Inl FileNotFoundError, w)
            | Some (File _) \<Rightarrow> (Inl NotADirectoryError, w)
            | Some Dir \<Rightarrow>
                (Inr (), w\<lparr>files := (files w)(resolve path \<mapsto>
                                File (config_text (env_value w ''R2_S3_ENDPOINT'')))\<rparr>)))"
proof -
  have "write_config path w =
     (if files w (resolve path) \<noteq> None then exit_2_printing (exists_msg path) w
      else if env_value w ''R2_S3_ENDPOINT'' = []
        then exit_2_printing (missing_msg ''R2_S3_ENDPOINT'') w
      else seq (open_w path)
             (\<lambda>h. handle_write h (config_text (env_value w ''R2_S3_ENDPOINT''))) w)"
    by (simp add: write_config_def seq_def check_no_file_named_eq from_env_value format_config
        lift_def exit_2_printing_def Let_def split: prod.splits sum.splits)
  then show ?thesis
    by (simp add: open_then_write split: option.splits node.splits)
qed

lemma write_creds_eq:
  "write_creds path w =
     (if env_value w ''R2_ACCESS_KEY_ID'' = []
        then exit_2_printing (missing_msg ''R2_ACCESS_KEY_ID'') w
      else if env_value w ''R2_SECRET_ACCESS_KEY'' = []
        then exit_2_printing (missing_msg ''R2_SECRET_ACCESS_KEY'') w
      else (case files w (butlast (resolve path)) of
              None \<Rightarrow> (Inl FileNotFoundError, w)
            | Some (File _) \<Rightarrow> (Inl NotADirectoryError, w)
            | Some Dir \<Rightarrow>
                (if files w (resolve path) = Some Dir then (Inl IsADirectoryError, w)
                 else (Inr (), w\<lparr>files := (files w)(resolve path \<mapsto>
                         File (creds_text (env_value w ''R2_ACCESS_KEY_ID'')
                                 (env_value w ''R2_SECRET_ACCESS_KEY'')))\<rparr>))))"
proof -
  have "write_creds path w =
     (if env_value w ''R2_ACCESS_KEY_ID'' = []
        then exit_2_printing (missing_msg ''R2_ACCESS_KEY_ID'') w
      else if env_value w ''R2_SECRET_ACCESS_KEY'' = []
        then exit_2_printing (missing_msg ''R2_SECRET_ACCESS_KEY'') w
      else seq (open_w path)
             (\<lambda>h. handle_write h (creds_text (env_value w ''R2_ACCESS_KEY_ID'')
                                     (env_value w ''R2_SECRET_ACCESS_KEY''))) w)"
    by (simp add: write_creds_def seq_def from_env_value format_creds lift_def
        exit_2_printing_def Let_def split: prod.splits sum.splits)
  then show ?thesis
    by (simp add: open_then_write)
qed

lemma main_eq:
  "main w =
     (if files w (resolve (aws_dir w)) = None then (Inl TypeError, w)
      else seq (write_config (config_file w)) (\<lambda>_. write_creds (creds_file w)) w)"
  by (simp add: main_def Let_def seq_def os_path_exists_def os_makedirs_def return_def
      aws_dir_def config_file_def creds_file_def)

text \<open>Every path through \<open>main\<close>, in the order the script takes its decisions.\<close>

lemma main_outcome:
  "main w =
     (case files w (resolve (aws_dir w)) of
        None \<Rightarrow> (Inl TypeError, w)
      | Some d \<Rightarrow>
          (if files w (resolve (config_file w)) \<noteq> None
             then exit_2_printing (exists_msg (config_file w)) w
           else if env_value w ''R2_S3_ENDPOINT'' = []
             then exit_2_printing (missing_msg ''R2_S3_ENDPOINT'') w
           else (case d of
                   File _ \<Rightarrow> (Inl NotADirectoryError, w)
                 | Dir \<Rightarrow>
                     (if env_value w ''R2_ACCESS_KEY_ID'' = []
                        then exit_2_printing (missing_msg ''R2_ACCESS_KEY_ID'') (config_written w)
                      else if env_value w ''R2_SECRET_ACCESS_KEY'' = []
                        then exit_2_printing (missing_msg ''R2_SECRET_ACCESS_KEY'')
                               (config_written w)
                      else if files w (resolve (creds_file w)) = Some Dir
                        then (Inl IsADirectoryError, config_written w)
                      else (Inr (), creds_written w)))))"
  by (simp add: main_eq seq_def write_config_eq write_creds_eq
      resolve_config_file resolve_creds_file config_written_def creds_written_def
      env_value_def exit_2_printing_def split: option.splits node.splits)

lemma exit_status_simps:
  "exit_status (Inr u) = 0" "exit_status (Inl (SystemExit n)) = n"
  "exit_status (Inl TypeError) = 1" "exit_status (Inl NotADirectoryError) = 1"
  "exit_status (Inl IsADirectoryError) = 1"
  by (simp_all add: exit_status_def)

lemma run_script_eq: "run_script w = (exit_status (fst (main w)), snd (main w))"
  by (simp add: run_script_def split: prod.splits)

lemma main_without_aws_dir:
  "files w (resolve (aws_dir w)) = None \<Longrightarrow> main w = (Inl TypeError, w)"
  by (simp add: main_outcome)


text \<open>
  With the directory in place and no node at the credentials path, the exit status is
  0 or 2; it is 2 exactly when the config file exists or a variable is missing, and
  then something has been printed.
\<close>

lemma exit_status_with_directory:
  assumes "files w (resolve (aws_dir w)) = Some Dir"
    and "files w (resolve (creds_file w)) = None"
  shows "fst (run_script w) =
           (if files w (resolve (config_file w)) \<noteq> None \<or> missing w ''R2_S3_ENDPOINT''
               \<or> missing w ''R2_ACCESS_KEY_ID'' \<or> missing w ''R2_SECRET_ACCESS_KEY''
            then 2 else 0)"
    and "fst (run_script w) = 2 \<Longrightarrow> stdout (snd (run_script w)) \<noteq> stdout w"
  using assms
  by (auto simp add: run_script_eq main_outcome env_value_empty exit_2_printing_def
      exit_status_simps config_written_def missing_msg_def exists_msg_def)


lemma main_frame:
  "p \<noteq> resolve (config_file w) \<Longrightarrow> p \<noteq> resolve (creds_file w) \<Longrightarrow>
   files (snd (main w)) p = files w p"
  by (simp add: main_outcome exit_2_printing_def config_written_def creds_written_def
      split: option.splits node.splits)





section \<open>Well-formed filesystems\<close>

lemma wf_fs_parent: "wf_fs fs \<Longrightarrow> fs (p @ [c]) \<noteq> None \<Longrightarrow> fs p = Some Dir"
  unfolding wf_fs_def by (metis butlast_snoc snoc_eq_iff_butlast)

lemma wf_fs_new_file:
  assumes "wf_fs fs" and "fs p = Some Dir" and "fs (p @ [c]) \<noteq> Some Dir"
  shows "wf_fs (fs(p @ [c] \<mapsto> File t))"
  unfolding wf_fs_def
proof (intro conjI allI impI)
  show "(fs(p @ [c] \<mapsto> File t)) [] = Some Dir"
    using assms(1) by (simp add: wf_fs_def)
next
  fix q
  assume q: "q \<noteq> [] \<and> (fs(p @ [c] \<mapsto> File t)) q \<noteq> None"
  show "(fs(p @ [c] \<mapsto> File t)) (butlast q) = Some Dir"
  proof (cases "q = p @ [c]")
    case True
    then show ?thesis using assms(2) by simp
  next
    case False
    with q have "fs (butlast q) = Some Dir"
      using assms(1) by (simp add: wf_fs_def)
    moreover from this have "butlast q \<noteq> p @ [c]"
      using assms(3) by auto
    ultimately show ?thesis by simp
  qed
qed

lemma wf_fs_new_dir:
  assumes "wf_fs fs" and "fs p = Some Dir"
  shows "wf_fs (fs(p @ [c] \<mapsto> Dir))"
  unfolding wf_fs_def
proof (intro conjI allI impI)
  show "(fs(p @ [c] \<mapsto> Dir)) [] = Some Dir"
    using assms(1) by (simp add: wf_fs_def)
next
  fix q
  assume q: "q \<noteq> [] \<and> (fs(p @ [c] \<mapsto> Dir)) q \<noteq> None"
  show "(fs(p @ [c] \<mapsto> Dir)) (butlast q) = Some Dir"
  proof (cases "q = p @ [c]")
    case True
    then show ?thesis using assms(2) by simp
  next
    case False
    with q have "fs (butlast q) = Some Dir"
      using assms(1) by (simp add: wf_fs_def)
    then show ?thesis by simp
  qed
qed

text \<open>The script keeps the filesystem well formed.\<close>

lemma main_preserves_wf_fs:
  assumes "wf_fs (files w)"
  shows "wf_fs (files (snd (main w)))"
proof -
  have cfg: "wf_fs (files (config_written w))"
    if "files w (resolve (aws_dir w)) = Some Dir" and "files w (resolve (config_file w)) = None"
    using that wf_fs_new_file [OF assms, of "resolve (aws_dir w)" "''config''"]
    by (simp add: config_written_def resolve_config_file)
  have crd: "wf_fs (files (creds_written w))"
    if a: "files w (resolve (aws_dir w)) = Some Dir" "files w (resolve (config_file w)) = None"
      "files w (resolve (creds_file w)) \<noteq> Some Dir"
  proof -
    have "wf_fs ((files (config_written w))(resolve (aws_dir w) @ [''credentials''] \<mapsto>
        File (creds_text (env_value w ''R2_ACCESS_KEY_ID'') (env_value w ''R2_SECRET_ACCESS_KEY''))))"
      using a by (intro wf_fs_new_file cfg)
        (simp_all add: config_written_def resolve_config_file resolve_creds_file)
    then show ?thesis
      by (simp add: creds_written_def config_written_def resolve_creds_file)
  qed
  show ?thesis
    using assms cfg crd
    by (simp add: main_outcome exit_2_printing_def split: option.splits node.splits)
qed

section \<open>The example states\<close>

lemma runner_homes:
  "expanduser_tilde fresh_runner = ''/home/runner''"
  "expanduser_tilde ready_runner = ''/home/runner''"
  "expanduser_tilde operator_creds_runner = ''/home/runner''"
  "expanduser_tilde key_id_unset_runner = ''/home/runner''"
  "expanduser_tilde operator_config_runner = ''/home/runner''"
  "expanduser_tilde crafted_runner = ''/home/runner''"
  "expanduser_tilde busy_runner = ''/home/runner''"
  by (simp_all add: expanduser_tilde_def rstrip_sep_def runner_env_def fresh_runner_def
      ready_runner_def operator_creds_runner_def key_id_unset_runner_def
      operator_config_runner_def crafted_runner_def busy_runner_def)

lemma runner_files:
  "expanduser_tilde w = ''/home/runner'' \<Longrightarrow> aws_dir w = ''/home/runner/.aws''"
  "expanduser_tilde w = ''/home/runner'' \<Longrightarrow> config_file w = ''/home/runner/.aws/config''"
  "expanduser_tilde w = ''/home/runner'' \<Longrightarrow> creds_file w = ''/home/runner/.aws/credentials''"
  by (simp_all add: aws_dir_def config_file_def creds_file_def os_path_join_def)

lemmas runner_strings =
  runner_homes [THEN runner_files(1)] runner_homes [THEN runner_files(2)]
  runner_homes [THEN runner_files(3)]

lemma runner_resolved:
  "resolve ''/home/runner/.aws'' = [''home'', ''runner'', ''.aws'']"
  "resolve ''/home/runner/.aws/config'' = [''home'', ''runner'', ''.aws'', ''config'']"
  "resolve ''/home/runner/.aws/credentials'' = [''home'', ''runner'', ''.aws'', ''credentials'']"
  by (simp_all add: resolve_def)

lemma runner_fields:
  "environ fresh_runner = runner_env" "files fresh_runner = runner_home_fs"
  "stdout fresh_runner = []"
  "environ ready_runner = runner_env" "files ready_runner = runner_aws_fs"
  "stdout ready_runner = []"
  "environ operator_creds_runner = runner_env"
  "files operator_creds_runner =
     runner_aws_fs([''home'', ''runner'', ''.aws'', ''credentials''] \<mapsto>
       File ''[default]\<newline>aws_access_key_id = operator\<newline>'')"
  "stdout operator_creds_runner = []"
  "environ key_id_unset_runner = runner_env(''R2_ACCESS_KEY_ID'' := None)"
  "files key_id_unset_runner = runner_aws_fs" "stdout key_id_unset_runner = []"
  "environ operator_config_runner = runner_env(''R2_S3_ENDPOINT'' := None)"
  "files operator_config_runner =
     runner_aws_fs([''home'', ''runner'', ''.aws'', ''config''] \<mapsto>
       File ''[default]\<newline>region = us-east-1\<newline>'')"
  "stdout operator_config_runner = []"
  "environ crafted_runner =
     runner_env(''R2_S3_ENDPOINT'' \<mapsto>
       ''https://x.r2.cloudflarestorage.com\<newline>[profile other]\<newline>region = mars'')"
  "files crafted_runner = runner_aws_fs" "stdout crafted_runner = []"
  "environ busy_runner = runner_env(''HOME'' \<mapsto> ''/home/runner/'', ''CI'' \<mapsto> ''true'')"
  "files busy_runner = runner_aws_fs([''tmp''] \<mapsto> Dir)"
  "stdout busy_runner = ''Run configure-aws-cli\<newline>''"
  by (simp_all add: fresh_runner_def ready_runner_def operator_creds_runner_def
      key_id_unset_runner_def operator_config_runner_def crafted_runner_def busy_runner_def)

lemmas runner_eval =
  run_script_eq main_outcome runner_strings runner_resolved runner_fields runner_env_def
  runner_home_fs_def runner_aws_fs_def env_value_def exit_status_simps exit_2_printing_def
  config_written_def creds_written_def config_text_def creds_text_def missing_msg_def
  exists_msg_def

lemma wf_runner_home_fs: "wf_fs runner_home_fs"
  by (auto simp add: wf_fs_def runner_home_fs_def split: if_splits)

lemma wf_runner_aws_fs: "wf_fs runner_aws_fs"
  using wf_fs_new_dir [OF wf_runner_home_fs, of "[''home'', ''runner'']" "''.aws''"]
  by (simp add: runner_aws_fs_def runner_home_fs_def)

lemma wf_example_states:
  "wf_fs (files fresh_runner)" "wf_fs (files ready_runner)"
  "wf_fs (files key_id_unset_runner)" "wf_fs (files crafted_runner)"
  by (simp_all add: runner_fields wf_runner_home_fs wf_runner_aws_fs)

lemma wf_operator_config_fs: "wf_fs (files operator_config_runner)"
  using wf_fs_new_file [OF wf_runner_aws_fs, of "[''home'', ''runner'', ''.aws'']" "''config''"]
  by (simp add: runner_fields runner_aws_fs_def runner_home_fs_def)

lemma wf_operator_creds_fs: "wf_fs (files operator_creds_runner)"
  using wf_fs_new_file [OF wf_runner_aws_fs, of "[''home'', ''runner'', ''.aws'']" "''credentials''"]
  by (simp add: runner_fields runner_aws_fs_def runner_home_fs_def)

lemma wf_busy_fs: "wf_fs (files busy_runner)"
  using wf_fs_new_dir [OF wf_runner_aws_fs, of "[]" "''tmp''"]
  by (simp add: runner_fields runner_aws_fs_def runner_home_fs_def)

lemma os_makedirs_exist_ok_fresh:
  "os_makedirs ''/home/runner/.aws'' [(''exist_ok'', PyBool True)] fresh_runner =
     (Inr (), fresh_runner\<lparr>files := runner_aws_fs\<rparr>)"
  by (simp add: os_makedirs_def kwarg_bool_def runner_resolved runner_fields
      makedirs_path.simps [of "[''home'', ''runner'', ''.aws'']"] mkdir_path_def
      runner_home_fs_def runner_aws_fs_def)

lemma os_makedirs_exist_ok_ready:
  "os_makedirs ''/home/runner/.aws'' [(''exist_ok'', PyBool True)] ready_runner =
     (Inr (), ready_runner\<lparr>files := runner_aws_fs\<rparr>)"
  by (simp add: os_makedirs_def kwarg_bool_def runner_resolved runner_fields
      makedirs_path.simps [of "[''home'', ''runner'', ''.aws'']"] mkdir_path_def
      runner_home_fs_def runner_aws_fs_def)

lemma run_fresh: "main fresh_runner = (Inl TypeError, fresh_runner)"
  by (simp add: runner_eval)

lemma run_operator_creds:
  "main operator_creds_runner =
     (Inr (), operator_creds_runner\<lparr>files := runner_aws_fs
        ([''home'', ''runner'', ''.aws'', ''config''] \<mapsto>
           File ''[default]\<newline>endpoint_url = https://x.r2.cloudflarestorage.com\<newline>region = auto\<newline>output = json\<newline>'',
         [''home'', ''runner'', ''.aws'', ''credentials''] \<mapsto>
           File ''[default]\<newline>aws_access_key_id = AKIA...\<newline>aws_secret_access_key = secret\<newline>'')\<rparr>)"
  by (simp add: runner_eval)

section \<open>The claims\<close>

subsection \<open>Pre-existing target files\<close>

text \<open>
  Claim C1 reads: for each of the two target paths, a file that already exists there
  makes the script exit with status 2, and the file is left as it was. That is what
  \<open>write_config\<close> does; \<open>write_creds\<close> never calls \<open>check_no_file_named\<close>. On a
  runner where an operator's credentials file is already at
  \<^verbatim>\<open>/home/runner/.aws/credentials\<close> the script ends with status 0 and the file holds
  the new credentials.
\<close>

theorem existing_credentials_overwritten:
  "files operator_creds_runner (resolve (creds_file operator_creds_runner)) =
     Some (File ''[default]\<newline>aws_access_key_id = operator\<newline>'')
   \<and> fst (run_script operator_creds_runner) = 0
   \<and> files (snd (run_script operator_creds_runner)) (resolve (creds_file operator_creds_runner)) =
       Some (File ''[default]\<newline>aws_access_key_id = AKIA...\<newline>aws_secret_access_key = secret\<newline>'')"
  by (simp add: run_script_eq run_operator_creds exit_status_simps runner_strings runner_resolved
      runner_fields)

text \<open>
  Claim C8: when the config file already exists, the script exits with status 2 and
  reports that file, whatever the environment holds; nothing is written and no message
  about a missing variable is printed.
\<close>

theorem existing_config_reported_first:
  assumes "wf_fs (files w)" and "files w (resolve (config_file w)) \<noteq> None"
  shows "main w =
           (Inl (SystemExit 2),
            w\<lparr>stdout := stdout w @ ''AWS config file '' @ CHR 0x27 # config_file w @
                           CHR 0x27 # '' exists. Refusing to overwrite.\<newline>''\<rparr>)
         \<and> (\<forall>key. stdout (snd (main w)) \<noteq>
                     stdout w @ ''Missing required environment variable: '' @ key @ ''\<newline>'')"
proof -
  have "files w (resolve (aws_dir w)) = Some Dir"
    using assms wf_fs_parent [of "files w" "resolve (aws_dir w)" "''config''"]
    by (simp add: resolve_config_file)
  then have "main w = exit_2_printing (exists_msg (config_file w)) w"
    using assms(2) by (simp add: main_outcome)
  then show ?thesis
    by (simp add: exit_2_printing_def exists_msg_def)
qed

text \<open>
  An instance: the operator's config file exists and \<^verbatim>\<open>R2_S3_ENDPOINT\<close> is unset; the
  file is what gets reported.
\<close>

theorem existing_config_reported_first_witness:
  "wf_fs (files operator_config_runner)
   \<and> files operator_config_runner (resolve (config_file operator_config_runner)) \<noteq> None
   \<and> missing operator_config_runner ''R2_S3_ENDPOINT''
   \<and> fst (main operator_config_runner) = Inl (SystemExit 2)
   \<and> stdout (snd (main operator_config_runner)) =
       ''AWS config file '/home/runner/.aws/config' exists. Refusing to overwrite.\<newline>''
   \<and> files (snd (main operator_config_runner)) = files operator_config_runner"
proof -
  have there:
    "files operator_config_runner (resolve (config_file operator_config_runner)) \<noteq> None"
    by (simp add: runner_strings runner_resolved runner_fields)
  have unset: "missing operator_config_runner ''R2_S3_ENDPOINT''"
    by (simp add: missing_def runner_fields)
  from existing_config_reported_first [OF wf_operator_config_fs there]
  have "main operator_config_runner =
      (Inl (SystemExit 2), operator_config_runner
        \<lparr>stdout := stdout operator_config_runner @ ''AWS config file '' @
           CHR 0x27 # config_file operator_config_runner @
           CHR 0x27 # '' exists. Refusing to overwrite.\<newline>''\<rparr>)"
    by simp
  then show ?thesis
    using wf_operator_config_fs there unset
    by (simp add: runner_strings runner_fields)
qed

subsection \<open>The directory\<close>

text \<open>
  Claim C2 reads: a missing \<^verbatim>\<open>.aws\<close> directory is created and the two files are then
  written; creating the directory never fails. The script calls
  \<^verbatim>\<open>os.makedirs(aws_dir, exists_ok=True)\<close>, and \<^verbatim>\<open>exists_ok\<close> is no parameter of
  \<^verbatim>\<open>os.makedirs\<close>. On a runner whose home has no \<^verbatim>\<open>.aws\<close> the call raises TypeError:
  nothing is created, nothing is written and the process ends with status 1.
\<close>

theorem makedirs_keyword_raises:
  "files fresh_runner (resolve (aws_dir fresh_runner)) = None
   \<and> main fresh_runner = (Inl TypeError, fresh_runner)
   \<and> run_script fresh_runner = (1, fresh_runner)"
  by (simp add: run_script_eq run_fresh exit_status_simps runner_strings runner_resolved
      runner_fields runner_home_fs_def)

subsection \<open>Missing variables\<close>






subsection \<open>Successful runs\<close>

text \<open>
  Claim C4 reads: with the three variables set and neither target file there, the
  script ends with status 0 and has written the two files. On a fresh runner, whose home
  has no \<^verbatim>\<open>.aws\<close> yet, the misspelt keyword of the \<^verbatim>\<open>os.makedirs\<close> call ends the run
  with status 1 before either file is written.
\<close>

theorem fresh_home_run_fails:
  "environ fresh_runner ''R2_S3_ENDPOINT'' = Some ''https://x.r2.cloudflarestorage.com''
   \<and> environ fresh_runner ''R2_ACCESS_KEY_ID'' = Some ''AKIA...''
   \<and> environ fresh_runner ''R2_SECRET_ACCESS_KEY'' = Some ''secret''
   \<and> files fresh_runner (resolve (config_file fresh_runner)) = None
   \<and> files fresh_runner (resolve (creds_file fresh_runner)) = None
   \<and> fst (run_script fresh_runner) = 1
   \<and> files (snd (run_script fresh_runner)) (resolve (config_file fresh_runner)) = None
   \<and> files (snd (run_script fresh_runner)) (resolve (creds_file fresh_runner)) = None"
  by (simp add: run_script_eq run_fresh exit_status_simps runner_strings runner_resolved
      runner_fields runner_home_fs_def runner_env_def)

text \<open>
  Claim C5 reads: the exit status is 0 on success and 2 on a missing variable or a
  pre-existing target file, each failure with a printed message, and no other status is
  possible. The fresh runner ends with status 1 and nothing printed on standard output;
  the runner with a pre-existing credentials file ends with status 0.
\<close>

theorem exit_status_outside_contract:
  "fst (run_script fresh_runner) = 1
   \<and> stdout (snd (run_script fresh_runner)) = []
   \<and> files operator_creds_runner (resolve (creds_file operator_creds_runner)) \<noteq> None
   \<and> fst (run_script operator_creds_runner) = 0"
  by (simp add: run_script_eq run_fresh run_operator_creds exit_status_simps runner_strings
      runner_resolved runner_fields)

text \<open>
  Claim C6: when the script returns normally, the three variables are set, the config
  file is the section \<^verbatim>\<open>[default]\<close> with the lines \<^verbatim>\<open>endpoint_url = \<close>\<open>e\<close>,
  \<^verbatim>\<open>region = auto\<close> and \<^verbatim>\<open>output = json\<close>, and the credentials file is the section
  \<^verbatim>\<open>[default]\<close> with the lines \<^verbatim>\<open>aws_access_key_id = \<close>\<open>k\<close> and
  \<^verbatim>\<open>aws_secret_access_key = \<close>\<open>s\<close>, for the values \<open>e\<close>, \<open>k\<close> and \<open>s\<close> of the variables.
\<close>

theorem successful_run_file_contents:
  assumes "fst (main w) = Inr ()"
  shows "\<exists>e k s. environ w ''R2_S3_ENDPOINT'' = Some e
           \<and> environ w ''R2_ACCESS_KEY_ID'' = Some k
           \<and> environ w ''R2_SECRET_ACCESS_KEY'' = Some s
           \<and> files (snd (main w)) (resolve (config_file w)) =
               Some (File (''[default]\<newline>endpoint_url = '' @ e @
                           ''\<newline>region = auto\<newline>output = json\<newline>''))
           \<and> files (snd (main w)) (resolve (creds_file w)) =
               Some (File (''[default]\<newline>aws_access_key_id = '' @ k @
                           ''\<newline>aws_secret_access_key = '' @ s @ ''\<newline>''))"
proof -
  from assms have ok: "main w = (Inr (), creds_written w)"
    and given: "env_value w ''R2_S3_ENDPOINT'' \<noteq> []" "env_value w ''R2_ACCESS_KEY_ID'' \<noteq> []"
      "env_value w ''R2_SECRET_ACCESS_KEY'' \<noteq> []"
    by (auto simp add: main_outcome exit_2_printing_def split: option.splits node.splits if_splits)
  from given obtain e k s where env:
    "environ w ''R2_S3_ENDPOINT'' = Some e" "environ w ''R2_ACCESS_KEY_ID'' = Some k"
    "environ w ''R2_SECRET_ACCESS_KEY'' = Some s"
    by (auto simp add: env_value_def split: option.splits)
  show ?thesis
    using env config_path_neq_creds_path [of w]
    by (simp add: ok creds_written_def env_value_Some config_text_def creds_text_def)
qed

text \<open>The specification's example values, on a runner that has the directory.\<close>

theorem successful_run_file_contents_witness:
  "fst (main ready_runner) = Inr ()
   \<and> files (snd (main ready_runner)) [''home'', ''runner'', ''.aws'', ''config''] =
       Some (File ''[default]\<newline>endpoint_url = https://x.r2.cloudflarestorage.com\<newline>region = auto\<newline>output = json\<newline>'')
   \<and> files (snd (main ready_runner)) [''home'', ''runner'', ''.aws'', ''credentials''] =
       Some (File ''[default]\<newline>aws_access_key_id = AKIA...\<newline>aws_secret_access_key = secret\<newline>'')"
proof -
  have ok: "fst (main ready_runner) = Inr ()"
    by (simp add: runner_eval)
  from successful_run_file_contents [OF ok] ok show ?thesis
    by (auto simp add: runner_strings runner_resolved runner_fields runner_env_def)
qed



subsection \<open>What a run depends on\<close>



end
